theory Spec2Isabelle
  imports Main "HOL-Library.Word"
begin

section \<open>Text\<close>

text \<open>
  A JavaScript string is a sequence of UTF-16 code units: \<open>length\<close>, indexing, \<open>+\<close> and a
  regular expression without the \<open>u\<close> flag all work on code units. Literals of the source
  are ASCII and are written \<open>js ''...''\<close>.
\<close>

type_synonym jschar = "16 word"
type_synonym jsstring = "jschar list"

definition js :: "string \<Rightarrow> jsstring" where
  "js s = map of_char s"

text \<open>\<open>Array.prototype.join\<close> on an array of strings.\<close>

fun join :: "jsstring \<Rightarrow> jsstring list \<Rightarrow> jsstring" where
  "join sep [] = []"
| "join sep [x] = x"
| "join sep (x # y # ys) = x @ sep @ join sep (y # ys)"

section \<open>Regular expressions\<close>

text \<open>
  The two patterns of \<open>getQueueMethodForReturnType\<close> use: pattern characters, \<open>.\<close>, a
  negated character class, \<open>*\<close>, \<open>+\<close> and concatenation, between \<open>^\<close> and \<open>$\<close>.
  \<open>Zero\<close>, \<open>One\<close> and \<open>Alt\<close> are there for the derivatives only.
\<close>

datatype regex =
    Zero
  | One
  | Lit jschar
  | Dot
  | NoneOf "jschar list"
  | Seq regex regex
  | Alt regex regex
  | Star regex

text \<open>
  Without the \<open>s\<close> flag \<open>.\<close> matches every code unit but the four line terminators
  LF, CR, LS (U+2028) and PS (U+2029).
\<close>

definition lineTerminator :: "jschar \<Rightarrow> bool" where
  "lineTerminator c = (c = 0x0A \<or> c = 0x0D \<or> c = 0x2028 \<or> c = 0x2029)"

definition Many1 :: "regex \<Rightarrow> regex" where
  "Many1 r = Seq r (Star r)"

fun lits :: "jsstring \<Rightarrow> regex" where
  "lits [] = One"
| "lits (c # cs) = Seq (Lit c) (lits cs)"

text \<open>The set of texts a pattern describes.\<close>

definition conc :: "jsstring set \<Rightarrow> jsstring set \<Rightarrow> jsstring set" where
  "conc A B = {u @ v | u v. u \<in> A \<and> v \<in> B}"

inductive_set star :: "jsstring set \<Rightarrow> jsstring set" for A :: "jsstring set" where
  star_nil: "[] \<in> star A"
| star_app: "u \<in> A \<Longrightarrow> v \<in> star A \<Longrightarrow> u @ v \<in> star A"

fun lang :: "regex \<Rightarrow> jsstring set" where
  "lang Zero = {}"
| "lang One = {[]}"
| "lang (Lit c) = {[c]}"
| "lang Dot = {[c] | c. \<not> lineTerminator c}"
| "lang (NoneOf cs) = {[c] | c. c \<notin> set cs}"
| "lang (Seq r s) = conc (lang r) (lang s)"
| "lang (Alt r s) = lang r \<union> lang s"
| "lang (Star r) = star (lang r)"

text \<open>The matcher: Brzozowski derivatives, one code unit at a time.\<close>

fun nullable :: "regex \<Rightarrow> bool" where
  "nullable Zero = False"
| "nullable One = True"
| "nullable (Lit c) = False"
| "nullable Dot = False"
| "nullable (NoneOf cs) = False"
| "nullable (Seq r s) = (nullable r \<and> nullable s)"
| "nullable (Alt r s) = (nullable r \<or> nullable s)"
| "nullable (Star r) = True"

text \<open>\<open>seq\<close> and \<open>alt\<close> drop the dead branches, so that the derivative stays small.\<close>

fun seq :: "regex \<Rightarrow> regex \<Rightarrow> regex" where
  "seq Zero s = Zero"
| "seq One s = s"
| "seq r s = Seq r s"

fun alt :: "regex \<Rightarrow> regex \<Rightarrow> regex" where
  "alt Zero s = s"
| "alt r Zero = r"
| "alt r s = Alt r s"

fun deriv :: "jschar \<Rightarrow> regex \<Rightarrow> regex" where
  "deriv a Zero = Zero"
| "deriv a One = Zero"
| "deriv a (Lit c) = (if a = c then One else Zero)"
| "deriv a Dot = (if lineTerminator a then Zero else One)"
| "deriv a (NoneOf cs) = (if a \<in> set cs then Zero else One)"
| "deriv a (Seq r s) =
     (if nullable r then alt (seq (deriv a r) s) (deriv a s) else seq (deriv a r) s)"
| "deriv a (Alt r s) = alt (deriv a r) (deriv a s)"
| "deriv a (Star r) = seq (deriv a r) (Star r)"

fun derivs :: "regex \<Rightarrow> jsstring \<Rightarrow> regex" where
  "derivs r [] = r"
| "derivs r (a # w) = derivs (deriv a r) w"

text \<open>
  \<open>/^r$/.test(s)\<close>: without the \<open>m\<close> flag \<open>^\<close> and \<open>$\<close> are the two ends of the
  input, so the test succeeds when the whole of \<open>s\<close> matches \<open>r\<close>. A literal without the
  \<open>g\<close> or \<open>y\<close> flag keeps no position between two tests.
\<close>

definition test :: "regex \<Rightarrow> jsstring \<Rightarrow> bool" where
  "test r s = nullable (derivs r s)"

section \<open>The syntax tree\<close>

text \<open>
  The part of the TypeScript syntax tree that \<open>core.ts\<close> inspects. The code dispatches on
  \<open>node.kind\<close>; here each kind it tests is a constructor and every other kind falls under
  the remaining one. \<open>getText(sourceFile)\<close> and \<open>getFullText(sourceFile)\<close> slice the text
  of the file at the node; the nodes of the model hold these slices.

  A name is an \<open>Identifier\<close>, with its \<open>escapedText\<close> and its source text, or a node of
  another kind (a binding pattern, a computed or literal property name), which has a source
  text only. The \<open>escapedText\<close> is the identifier as the parser escapes it: TypeScript puts
  a third underscore before an identifier that begins with two, so that it is not always
  the identifier as written.
\<close>

datatype name_node =
    Identifier (escapedText: jsstring) (nameText: jsstring)
  | OtherName (nameText: jsstring)

text \<open>A formal parameter: its name and the full text of its type annotation, if any.\<close>

datatype parameter_node =
    Parameter "name_node option" "jsstring option"
  | OtherParameterKind

text \<open>
  A class member: a method with name, parameters and return type annotation, or else. The
  last field of a method is the text of its declaration head as the source has it, from
  the name to the end of the return type annotation (to the closing parenthesis when
  there is none); \<open>core.ts\<close> never reads it.
\<close>

datatype class_element =
    MethodDeclaration "name_node option" "parameter_node list" "jsstring option" jsstring
  | OtherElement

text \<open>
  A child of the root: a class declaration, or a node of another kind with the \<open>name\<close> and
  the \<open>members\<close> that it may have (an interface or an enum has both, a token neither).
\<close>

datatype node =
    ClassDeclaration "name_node option" "class_element list"
  | OtherNode "name_node option" "class_element list option"

fun nodeName :: "node \<Rightarrow> name_node option" where
  "nodeName (ClassDeclaration cname members) = cname"
| "nodeName (OtherNode oname omembers) = oname"

fun nodeMembers :: "node \<Rightarrow> class_element list option" where
  "nodeMembers (ClassDeclaration cname members) = Some members"
| "nodeMembers (OtherNode oname omembers) = omembers"

record source_file =
  sf_fileName :: jsstring
  sf_text :: jsstring
  sf_children :: "node list"

text \<open>
  What a call can throw: the \<open>Error\<close> of \<open>assert\<close> with its message, or the
  \<open>TypeError\<close> of the runtime on reading a property of \<open>undefined\<close>.
\<close>

datatype error = Error (message: jsstring) | TypeError

text \<open>
  The TypeScript library is not part of the repository. Its parser and printer are
  parameters: \<open>parse fileName text\<close> gives the children of the root that
  \<open>ts.createSourceFile(fileName, text, ts.ScriptTarget.Latest)\<close> builds, and \<open>printFile\<close>
  is \<open>ts.createPrinter().printFile\<close>. The unit keeps its file name and its text.
  \<open>ts.createSourceFile\<close> reads the extension of the file name, and so throws a
  \<open>TypeError\<close> when the file name is \<open>undefined\<close>, here \<open>None\<close>.
\<close>

record typescript =
  parse :: "jsstring \<Rightarrow> jsstring \<Rightarrow> node list"
  printFile :: "source_file \<Rightarrow> jsstring"

definition sourceFile :: "typescript \<Rightarrow> jsstring \<Rightarrow> jsstring \<Rightarrow> source_file" where
  "sourceFile ts fileName sourceText =
     \<lparr>sf_fileName = fileName, sf_text = sourceText, sf_children = parse ts fileName sourceText\<rparr>"

fun createSourceFile ::
  "typescript \<Rightarrow> jsstring option \<Rightarrow> jsstring \<Rightarrow> error + source_file" where
  "createSourceFile ts None sourceText = Inl TypeError"
| "createSourceFile ts (Some fileName) sourceText = Inr (sourceFile ts fileName sourceText)"

section \<open>core.ts\<close>

text \<open>
  An optional property of the options object: the key is absent, or it is present with the
  value \<open>undefined\<close>, or it is present with a text.
\<close>

datatype 'a property = Absent | Undefined | Given 'a

record GenerateOptions =
  inputFileText :: jsstring
  inputFileTargetClass :: jsstring
  inputFileName :: "jsstring property"
  outputFileName :: "jsstring property"

text \<open>
  \<open>Object.assign({ inputFileName: '', outputFileName: '' }, options)\<close> at one key: the
  default stays when the key is absent, and every present value, also \<open>undefined\<close>, here
  \<open>None\<close>, replaces it.
\<close>

fun assigned :: "jsstring property \<Rightarrow> jsstring option" where
  "assigned Absent = Some []"
| "assigned Undefined = None"
| "assigned (Given v) = Some v"

text \<open>A value inside a template literal.\<close>

fun templateText :: "jsstring option \<Rightarrow> jsstring" where
  "templateText None = js ''undefined''"
| "templateText (Some v) = v"

record MethodArgumentMetadata =
  a_name :: jsstring
  a_type :: jsstring

record MethodDeclarationMetadata =
  m_name :: jsstring
  m_declarationText :: jsstring
  m_returnType :: jsstring
  m_args :: "MethodArgumentMetadata list"

definition nl :: jsstring where "nl = [0x0A]"
definition tab :: jsstring where "tab = [0x09]"
definition quote :: jsstring where "quote = [0x27]"
definition dquote :: jsstring where "dquote = [0x22]"

definition assert :: "bool \<Rightarrow> jsstring \<Rightarrow> error + unit" where
  "assert condition errorMessage =
     (if \<not> condition then Inl (Error (js ''[GuardGenerator] '' @ errorMessage)) else Inr ())"

fun isClassDeclarationWithIdentifier :: "node \<Rightarrow> jsstring \<Rightarrow> bool" where
  "isClassDeclarationWithIdentifier (OtherNode oname omembers) targetClassName = False"
| "isClassDeclarationWithIdentifier (ClassDeclaration None members) targetClassName = False"
| "isClassDeclarationWithIdentifier (ClassDeclaration (Some (OtherName t)) members)
     targetClassName = False"
| "isClassDeclarationWithIdentifier (ClassDeclaration (Some (Identifier e t)) members)
     targetClassName = (e = targetClassName)"

text \<open>\<open>forEachChild\<close> with the callback that keeps the first hit in \<open>result\<close>.\<close>

definition findClassNodeByName :: "source_file \<Rightarrow> jsstring \<Rightarrow> node option" where
  "findClassNodeByName source targetClassName =
     foldl (\<lambda>result n.
        if result \<noteq> None then result
        else if \<not> isClassDeclarationWithIdentifier n targetClassName then result
        else Some n) None (sf_children source)"

definition generateClassInterfaceMethods ::
  "MethodDeclarationMetadata list \<Rightarrow> jsstring \<Rightarrow> jsstring" where
  "generateClassInterfaceMethods methods indent =
     join nl (map (\<lambda>m. indent @ m_declarationText m @ js '';'') methods)"

text \<open>\<open>/^.*Observable<.+>[^\[|\]]*$/\<close> and \<open>/^.*Promise<.+>[^\[|\]]*$/\<close>.\<close>

definition genericPattern :: "string \<Rightarrow> regex" where
  "genericPattern g =
     Seq (Star Dot) (Seq (lits (js g)) (Seq (lits (js ''<'')) (Seq (Many1 Dot)
       (Seq (lits (js ''>'')) (Star (NoneOf (js ''[|]'')))))))"

definition getQueueMethodForReturnType :: "jsstring \<Rightarrow> jsstring option" where
  "getQueueMethodForReturnType returnType =
     (if test (genericPattern ''Observable'') returnType then Some (js ''observe'')
      else if test (genericPattern ''Promise'') returnType then Some (js ''add'')
      else None)"

text \<open>Both queue method names are non-empty, hence truthy where the code tests them.\<close>

definition generateClassGuardMethod ::
  "MethodDeclarationMetadata \<Rightarrow> jsstring \<Rightarrow> jsstring \<Rightarrow> jsstring" where
  "generateClassGuardMethod method sourceRefName indent =
     (let queueMethod = getQueueMethodForReturnType (m_returnType method);
          methodArgs = join (js '', '') (map a_name (m_args method));
          sourceCall = js ''this.'' @ sourceRefName @ js ''.'' @ m_name method
            @ js ''('' @ methodArgs @ js '')'';
          returnStatement =
            (case queueMethod of
               Some q \<Rightarrow> js ''this.queue.'' @ q @ js ''(() => '' @ sourceCall @ js '')''
             | None \<Rightarrow> sourceCall)
      in indent @ m_declarationText method @ js '' {'' @ nl
         @ indent @ tab @ js ''return '' @ returnStatement @ js '';'' @ nl
         @ indent @ js ''}'')"

definition generateClassGuardMethodList ::
  "MethodDeclarationMetadata list \<Rightarrow> jsstring \<Rightarrow> jsstring \<Rightarrow> jsstring" where
  "generateClassGuardMethodList methods sourceRefName indent =
     join nl (map (\<lambda>m. generateClassGuardMethod m sourceRefName indent) methods)"

text \<open>\<open>.filter(v => v)\<close> after a \<open>map\<close> to objects or \<open>null\<close>: the objects stay.\<close>

fun compact :: "'a option list \<Rightarrow> 'a list" where
  "compact [] = []"
| "compact (None # xs) = compact xs"
| "compact (Some x # xs) = x # compact xs"

fun parseMethodArgumentDeclarationMetadata ::
  "parameter_node \<Rightarrow> MethodArgumentMetadata option" where
  "parseMethodArgumentDeclarationMetadata OtherParameterKind = None"
| "parseMethodArgumentDeclarationMetadata (Parameter pname ptype) =
     Some \<lparr>a_name = (case pname of Some n \<Rightarrow> nameText n | None \<Rightarrow> []),
           a_type = (case ptype of Some t \<Rightarrow> t | None \<Rightarrow> [])\<rparr>"

fun parseMethodDeclarationMetadata :: "class_element \<Rightarrow> MethodDeclarationMetadata option" where
  "parseMethodDeclarationMetadata OtherElement = None"
| "parseMethodDeclarationMetadata (MethodDeclaration mname parameters mtype head) =
     (let name = (case mname of Some n \<Rightarrow> nameText n | None \<Rightarrow> []);
          args = compact (map parseMethodArgumentDeclarationMetadata parameters);
          returnType = (case mtype of Some t \<Rightarrow> t | None \<Rightarrow> js ''any'');
          typedArgumentList = join (js '', '') (map (\<lambda>a. a_name a @ js '': '' @ a_type a) args);
          declarationText = name @ js ''('' @ typedArgumentList @ js ''): '' @ returnType
      in Some \<lparr>m_name = name, m_declarationText = declarationText,
               m_returnType = returnType, m_args = args\<rparr>)"

definition parseMethodDeclarationMetadataList ::
  "class_element list \<Rightarrow> MethodDeclarationMetadata list" where
  "parseMethodDeclarationMetadataList members =
     compact (map parseMethodDeclarationMetadata members)"

text \<open>
  The template literal \<open>sourceFileText\<close> of \<open>generateOutputFromClassSource\<close>, as a function
  of the class name and the members of the class. Lines 140 and 142 of the source hold one
  tab each, and a line break in a template literal is one LF.
\<close>

definition sourceFileText :: "jsstring \<Rightarrow> class_element list \<Rightarrow> jsstring" where
  "sourceFileText className members =
     (let classLikeInterfaceName = className @ js ''Like'';
          classGuardName = className @ js ''Guard'';
          sourceRefName = js ''source'';
          methodDeclarations = parseMethodDeclarationMetadataList members
      in js ''import { Observable } from '' @ quote @ js ''rxjs'' @ quote @ js '';'' @ nl
         @ js ''import { CommandQueue } from '' @ quote @ js ''@obsidize/command-queue''
         @ quote @ js '';'' @ nl
         @ nl
         @ js ''export interface '' @ classLikeInterfaceName @ js '' {'' @ nl
         @ generateClassInterfaceMethods methodDeclarations tab @ nl
         @ js ''}'' @ nl
         @ nl
         @ js ''export class '' @ classGuardName @ js '' implements ''
         @ classLikeInterfaceName @ js '' {'' @ nl
         @ tab @ nl
         @ tab @ js ''public readonly queue: CommandQueue = new CommandQueue();'' @ nl
         @ tab @ nl
         @ tab @ js ''constructor('' @ nl
         @ tab @ tab @ js ''public readonly '' @ sourceRefName @ js '': ''
         @ classLikeInterfaceName @ nl
         @ tab @ js '') {'' @ nl
         @ tab @ js ''}'' @ nl
         @ nl
         @ generateClassGuardMethodList methodDeclarations sourceRefName tab @ nl
         @ js ''}'' @ nl)"

text \<open>
  \<open>generateOutputFromClassSource\<close> takes its node for a class declaration without a test.
  \<open>sourceClass.name!.escapedText\<close> throws when the node has no name, and is \<open>undefined\<close>,
  which \<open>+\<close> turns into text, when the name is no identifier; \<open>sourceClass.members.map\<close>
  throws when the node has no members.
\<close>

definition generateOutputFromClassSource ::
  "typescript \<Rightarrow> jsstring option \<Rightarrow> node \<Rightarrow> error + source_file" where
  "generateOutputFromClassSource ts outFileName sourceClass =
     (case nodeName sourceClass of
        None \<Rightarrow> Inl TypeError
      | Some cname \<Rightarrow>
          (let className = (case cname of Identifier e t \<Rightarrow> e | OtherName t \<Rightarrow> js ''undefined'')
           in case nodeMembers sourceClass of
                None \<Rightarrow> Inl TypeError
              | Some members \<Rightarrow>
                  createSourceFile ts outFileName (sourceFileText className members)))"

text \<open>
  The only state a call touches is the console, to which \<open>generateAst\<close> writes one entry.
  \<open>assert\<close> throws when no class was found, so that the call of
  \<open>generateOutputFromClassSource\<close> always has a class node.
\<close>

record log_entry =
  log_inputFileName :: "jsstring option"
  log_inputFileSize :: nat
  log_inputFileTargetClass :: jsstring
  log_outputFileName :: "jsstring option"

type_synonym console = "log_entry list"

definition generateAst ::
  "typescript \<Rightarrow> GenerateOptions \<Rightarrow> console \<Rightarrow> (error + source_file) \<times> console" where
  "generateAst ts options con =
     (let inName = assigned (inputFileName options);
          outName = assigned (outputFileName options);
          con' = con @ [\<lparr>log_inputFileName = inName,
                          log_inputFileSize = length (inputFileText options),
                          log_inputFileTargetClass = inputFileTargetClass options,
                          log_outputFileName = outName\<rparr>]
      in case createSourceFile ts inName (inputFileText options) of
           Inl e \<Rightarrow> (Inl e, con')
         | Inr inputRootNode \<Rightarrow>
             (let classNode = findClassNodeByName inputRootNode (inputFileTargetClass options)
              in case assert (classNode \<noteq> None)
                        (js ''Definition for input '' @ dquote @ templateText inName @ dquote
                         @ js '' does not contain a cordova plugin class declaration'') of
                   Inl e \<Rightarrow> (Inl e, con')
                 | Inr u \<Rightarrow>
                     (case classNode of
                        Some c \<Rightarrow> (generateOutputFromClassSource ts outName c, con')
                      | None \<Rightarrow> (Inl TypeError, con'))))"

definition generate ::
  "typescript \<Rightarrow> GenerateOptions \<Rightarrow> console \<Rightarrow> (error + jsstring) \<times> console" where
  "generate ts options con =
     (case generateAst ts options con of
        (Inl e, con') \<Rightarrow> (Inl e, con')
      | (Inr outputRootNode, con') \<Rightarrow> (Inr (printFile ts outputRootNode), con'))"

section \<open>Vocabulary of the specification\<close>

text \<open>
  The three dispatch strategies, read off the queue method that the classifier returns:
  \<open>observe\<close> is the stream entry point of the queue, \<open>add\<close> the deferred one, and no
  queue method means a direct call.
\<close>

datatype DispatchStrategy = Stream | Deferred | Direct

definition strategy :: "jsstring \<Rightarrow> DispatchStrategy" where
  "strategy returnType =
     (case getQueueMethodForReturnType returnType of
        None \<Rightarrow> Direct
      | Some q \<Rightarrow> if q = js ''observe'' then Stream else Deferred)"

text \<open>
  What the two patterns accept, spelt out: some text without line terminator, the generic's
  name, \<open><\<close>, a non-empty text without line terminator, \<open>>\<close>, and then up to the end of the
  text none of \<open>[\<close>, \<open>|\<close> and \<open>]\<close>.
\<close>

definition acceptsGeneric :: "string \<Rightarrow> jsstring \<Rightarrow> bool" where
  "acceptsGeneric g s =
     (\<exists>a b c. s = a @ js g @ js ''<'' @ b @ js ''>'' @ c
        \<and> list_all (\<lambda>x. \<not> lineTerminator x) a
        \<and> b \<noteq> [] \<and> list_all (\<lambda>x. \<not> lineTerminator x) b
        \<and> list_all (\<lambda>x. x \<notin> set (js ''[|]'')) c)"

text \<open>
  The wording of the specification: the text contains the generic \<open>g<...>\<close>, and what follows
  it does not begin with an array bracket.
\<close>

definition containsGenericNotArraySuffixed :: "string \<Rightarrow> jsstring \<Rightarrow> bool" where
  "containsGenericNotArraySuffixed g s =
     (\<exists>a b c. s = a @ js g @ js ''<'' @ b @ js ''>'' @ c \<and> take 1 c \<noteq> js ''['')"

text \<open>
  A top-level class declaration whose identifier has the target name as its
  \<open>escapedText\<close>, and one whose identifier is the target name as the source writes it.
\<close>

definition declaresClass :: "node list \<Rightarrow> jsstring \<Rightarrow> bool" where
  "declaresClass statements target =
     (\<exists>t members. ClassDeclaration (Some (Identifier target t)) members \<in> set statements)"


text \<open>\<open>s\<close> contains \<open>p\<close> as a contiguous part.\<close>

fun startsWith :: "jsstring \<Rightarrow> jsstring \<Rightarrow> bool" where
  "startsWith s [] = True"
| "startsWith [] (p # ps) = False"
| "startsWith (x # xs) (p # ps) = (x = p \<and> startsWith xs ps)"

fun containsText :: "jsstring \<Rightarrow> jsstring \<Rightarrow> bool" where
  "containsText [] p = startsWith [] p"
| "containsText (x # xs) p = (startsWith (x # xs) p \<or> containsText xs p)"


text \<open>The methods of a class as the source declares them, and the parts of a method.\<close>

fun isMethodDeclaration :: "class_element \<Rightarrow> bool" where
  "isMethodDeclaration (MethodDeclaration mname parameters mtype head) = True"
| "isMethodDeclaration OtherElement = False"

definition methodsOf :: "class_element list \<Rightarrow> class_element list" where
  "methodsOf members = filter isMethodDeclaration members"

fun methodName :: "class_element \<Rightarrow> jsstring" where
  "methodName (MethodDeclaration (Some n) parameters mtype head) = nameText n"
| "methodName (MethodDeclaration None parameters mtype head) = []"
| "methodName OtherElement = []"

fun methodParameters :: "class_element \<Rightarrow> parameter_node list" where
  "methodParameters (MethodDeclaration mname parameters mtype head) = parameters"
| "methodParameters OtherElement = []"

fun methodReturnType :: "class_element \<Rightarrow> jsstring" where
  "methodReturnType (MethodDeclaration mname parameters (Some t) head) = t"
| "methodReturnType (MethodDeclaration mname parameters None head) = js ''any''"
| "methodReturnType OtherElement = js ''any''"

fun sourceHead :: "class_element \<Rightarrow> jsstring" where
  "sourceHead (MethodDeclaration mname parameters mtype head) = head"
| "sourceHead OtherElement = []"

fun isParameter :: "parameter_node \<Rightarrow> bool" where
  "isParameter (Parameter pname ptype) = True"
| "isParameter OtherParameterKind = False"

fun parameterName :: "parameter_node \<Rightarrow> jsstring" where
  "parameterName (Parameter (Some n) ptype) = nameText n"
| "parameterName (Parameter None ptype) = []"
| "parameterName OtherParameterKind = []"

fun parameterType :: "parameter_node \<Rightarrow> jsstring" where
  "parameterType (Parameter pname (Some t)) = t"
| "parameterType (Parameter pname None) = []"
| "parameterType OtherParameterKind = []"

text \<open>A simple named parameter: its name is an identifier, not a binding pattern.\<close>

fun simpleNamed :: "parameter_node \<Rightarrow> bool" where
  "simpleNamed (Parameter (Some (Identifier e t)) ptype) = True"
| "simpleNamed (Parameter (Some (OtherName t)) ptype) = False"
| "simpleNamed (Parameter None ptype) = False"
| "simpleNamed OtherParameterKind = False"

definition argumentOf :: "parameter_node \<Rightarrow> MethodArgumentMetadata" where
  "argumentOf p = \<lparr>a_name = parameterName p, a_type = parameterType p\<rparr>"

text \<open>
  The head \<open>name(arg1: type1, arg2: type2, ...): returnType\<close> rebuilt from the parts of a
  source method, and the delegating call \<open>this.source.name(arg1, arg2, ...)\<close>.
\<close>

definition typedParameters :: "class_element \<Rightarrow> jsstring" where
  "typedParameters e =
     join (js '', '')
       (map (\<lambda>p. parameterName p @ js '': '' @ parameterType p)
          (filter isParameter (methodParameters e)))"

definition declarationHead :: "class_element \<Rightarrow> jsstring" where
  "declarationHead e =
     methodName e @ js ''('' @ typedParameters e @ js ''): '' @ methodReturnType e"

definition delegatingCall :: "class_element \<Rightarrow> jsstring" where
  "delegatingCall e =
     js ''this.source.'' @ methodName e @ js ''(''
     @ join (js '', '') (map parameterName (filter isParameter (methodParameters e)))
     @ js '')''"

definition metadataOf :: "class_element \<Rightarrow> MethodDeclarationMetadata" where
  "metadataOf e =
     \<lparr>m_name = methodName e, m_declarationText = declarationHead e,
      m_returnType = methodReturnType e,
      m_args = map argumentOf (filter isParameter (methodParameters e))\<rparr>"

text \<open>The arguments under the specification's wording: simple named parameters only.\<close>

definition simpleNamedArguments :: "parameter_node list \<Rightarrow> MethodArgumentMetadata list" where
  "simpleNamedArguments ps = map argumentOf (filter simpleNamed ps)"

text \<open>The return expression of a guard method under each strategy.\<close>

fun dispatchCall :: "DispatchStrategy \<Rightarrow> jsstring \<Rightarrow> jsstring" where
  "dispatchCall Direct call = call"
| "dispatchCall Stream call = js ''this.queue.observe(() => '' @ call @ js '')''"
| "dispatchCall Deferred call = js ''this.queue.add(() => '' @ call @ js '')''"

definition returnExpression :: "class_element \<Rightarrow> jsstring" where
  "returnExpression e = dispatchCall (strategy (methodReturnType e)) (delegatingCall e)"



text \<open>The message of the failure of \<open>assert\<close>.\<close>

definition notFoundMessage :: "jsstring \<Rightarrow> jsstring" where
  "notFoundMessage inName =
     js ''[GuardGenerator] Definition for input '' @ dquote @ inName @ dquote
     @ js '' does not contain a cordova plugin class declaration''"

text \<open>The shape of the two declarations and of the fixed lines of the generated text.\<close>

definition importLines :: jsstring where
  "importLines =
     js ''import { Observable } from '' @ quote @ js ''rxjs'' @ quote @ js '';'' @ nl
     @ js ''import { CommandQueue } from '' @ quote @ js ''@obsidize/command-queue''
     @ quote @ js '';'' @ nl"

definition interfaceDeclaration :: "jsstring \<Rightarrow> jsstring \<Rightarrow> jsstring" where
  "interfaceDeclaration iname body =
     js ''export interface '' @ iname @ js '' {'' @ nl @ body @ nl @ js ''}''"

definition classDeclaration :: "jsstring \<Rightarrow> jsstring \<Rightarrow> jsstring \<Rightarrow> jsstring" where
  "classDeclaration cname iname body =
     js ''export class '' @ cname @ js '' implements '' @ iname @ js '' {'' @ nl
     @ body @ nl @ js ''}''"

definition queueField :: jsstring where
  "queueField = tab @ js ''public readonly queue: CommandQueue = new CommandQueue();''"

definition constructorDeclaration :: "jsstring \<Rightarrow> jsstring" where
  "constructorDeclaration iname =
     tab @ js ''constructor('' @ nl
     @ tab @ tab @ js ''public readonly source: '' @ iname @ nl
     @ tab @ js '') {'' @ nl
     @ tab @ js ''}''"

section \<open>Sample inputs\<close>

text \<open>
  The class of the specification's end-to-end scenario, with a field among its methods, a
  method with an optional parameter and one with a destructuring parameter, in a file that
  already declares \<open>FooLike\<close> and also holds an interface, a class without asynchronous
  methods and a class whose name begins with two underscores. Type texts are full texts:
  they begin with the space that follows the colon.
\<close>

definition ident :: "string \<Rightarrow> name_node" where
  "ident s = Identifier (js s) (js s)"

definition barMethod :: class_element where
  "barMethod =
     MethodDeclaration (Some (ident ''bar''))
       [Parameter (Some (ident ''x'')) (Some (js '' number''))]
       (Some (js '' Promise<string>''))
       (js ''bar(x: number): Promise<string>'')"

definition loadMethod :: class_element where
  "loadMethod =
     MethodDeclaration (Some (ident ''load''))
       [Parameter (Some (ident ''id'')) (Some (js '' string''))]
       (Some (js '' void''))
       (js ''load(id?: string): void'')"

definition quxMethod :: class_element where
  "quxMethod =
     MethodDeclaration (Some (ident ''qux''))
       [Parameter (Some (OtherName (js ''{ a, b }''))) (Some (js '' Opts'')),
        Parameter (Some (ident ''y'')) None]
       (Some (js '' void''))
       (js ''qux({ a, b }: Opts, y): void'')"

definition fooMembers :: "class_element list" where
  "fooMembers =
     [barMethod,
      OtherElement,
      MethodDeclaration (Some (ident ''baz'')) [] (Some (js '' Observable<number>''))
        (js ''baz(): Observable<number>''),
      loadMethod,
      quxMethod]"

definition plainMembers :: "class_element list" where
  "plainMembers = [MethodDeclaration (Some (ident ''size'')) [] None (js ''size()'')]"

definition sampleFile :: "node list" where
  "sampleFile =
     [OtherNode None None,
      OtherNode (Some (ident ''Foo'')) (Some [OtherElement]),
      ClassDeclaration (Some (ident ''FooLike'')) [],
      ClassDeclaration (Some (ident ''Foo'')) fooMembers,
      ClassDeclaration (Some (ident ''Plain'')) plainMembers,
      ClassDeclaration (Some (Identifier (js ''___Bar'') (js ''__Bar''))) [],
      ClassDeclaration None [],
      OtherNode None None]"

text \<open>
  A parser that yields the sample file for every text, and one that, as TypeScript does,
  takes the kind of script from the extension of the file name: a \<open>.json\<close> file is read as
  JSON text, whose root has no class declaration among its children. The printer returns
  the text of the unit.
\<close>

definition sampleTs :: typescript where
  "sampleTs = \<lparr>parse = (\<lambda>fileName sourceText. sampleFile), printFile = sf_text\<rparr>"


definition sampleOptions ::
  "string \<Rightarrow> jsstring property \<Rightarrow> jsstring property \<Rightarrow> GenerateOptions" where
  "sampleOptions target inName outName =
     \<lparr>inputFileText = js ''export class Foo {}'', inputFileTargetClass = js target,
      inputFileName = inName, outputFileName = outName\<rparr>"

section \<open>The matcher decides the patterns\<close>

lemma lang_seq: "lang (seq r s) = conc (lang r) (lang s)"
  by (induction r s rule: seq.induct) (auto simp: conc_def)

lemma lang_alt: "lang (alt r s) = lang r \<union> lang s"
  by (induction r s rule: alt.induct) auto

lemma nullable_lang: "nullable r \<longleftrightarrow> [] \<in> lang r"
  by (induction r) (auto simp: conc_def intro: star.star_nil)

lemma star_cons:
  "a # w \<in> star A \<longleftrightarrow> (\<exists>u v. w = u @ v \<and> a # u \<in> A \<and> v \<in> star A)"
proof
  assume "a # w \<in> star A"
  then show "\<exists>u v. w = u @ v \<and> a # u \<in> A \<and> v \<in> star A"
  proof (induction "a # w" arbitrary: w rule: star.induct)
    case (star_app u v)
    show ?case
    proof (cases u)
      case Nil
      with star_app show ?thesis by simp
    next
      case (Cons b u')
      with star_app.hyps(1,2,4) show ?thesis by auto
    qed
  qed
next
  assume "\<exists>u v. w = u @ v \<and> a # u \<in> A \<and> v \<in> star A"
  then obtain u v where "w = u @ v" "a # u \<in> A" "v \<in> star A" by blast
  then show "a # w \<in> star A" using star.star_app [of "a # u" A v] by simp
qed

lemma conc_cons:
  "a # w \<in> conc A B \<longleftrightarrow>
     ([] \<in> A \<and> a # w \<in> B) \<or> (\<exists>u v. w = u @ v \<and> a # u \<in> A \<and> v \<in> B)"
  unfolding conc_def
  by (auto simp: Cons_eq_append_conv) 

lemma lang_deriv: "w \<in> lang (deriv a r) \<longleftrightarrow> a # w \<in> lang r"
proof (induction r arbitrary: w)
  case (Seq r s)
  then show ?case
    by (auto simp: lang_seq lang_alt conc_cons nullable_lang) (auto simp: conc_def)
next
  case (Star r)
  then show ?case by (auto simp: lang_seq star_cons conc_def)
qed (auto simp: lang_alt)

lemma lang_derivs: "w \<in> lang (derivs r u) \<longleftrightarrow> u @ w \<in> lang r"
  by (induction u arbitrary: r) (simp_all add: lang_deriv)

lemma test_lang: "test r s \<longleftrightarrow> s \<in> lang r"
  by (simp add: test_def nullable_lang lang_derivs)

lemma lang_lits: "lang (lits s) = {s}"
  by (induction s) (auto simp: conc_def)

lemma star_units: "star {[c] | c. P c} = {w. list_all P w}"
proof (intro equalityI subsetI)
  fix w assume "w \<in> star {[c] | c. P c}"
  then show "w \<in> {w. list_all P w}" by induction auto
next
  fix w assume "w \<in> {w. list_all P w}"
  then have "list_all P w" by simp
  then show "w \<in> star {[c] | c. P c}"
  proof (induction w)
    case Nil show ?case by (rule star.star_nil)
  next
    case (Cons c w)
    then have "[c] @ w \<in> star {[c] | c. P c}" by (intro star.star_app) auto
    then show ?case by simp
  qed
qed

lemma lang_plus_units:
  "conc {[c] | c. P c} {w. list_all P w} = {w. w \<noteq> [] \<and> list_all P w}"
proof (intro equalityI subsetI)
  fix w assume "w \<in> conc {[c] | c. P c} {w. list_all P w}"
  then show "w \<in> {w. w \<noteq> [] \<and> list_all P w}"
    by (auto simp: conc_def)
next
  fix w assume "w \<in> {w. w \<noteq> [] \<and> list_all P w}"
  then obtain c v where w: "w = [c] @ v" and "P c" and "list_all P v"
    by (cases w) auto
  then have "[c] \<in> {[c] | c. P c}" and "v \<in> {w. list_all P w}"
    by auto
  then show "w \<in> conc {[c] | c. P c} {w. list_all P w}"
    unfolding conc_def w by blast
qed

lemma conc_iff: "w \<in> conc A B \<longleftrightarrow> (\<exists>u v. w = u @ v \<and> u \<in> A \<and> v \<in> B)"
  by (auto simp: conc_def)

lemma conc_single_iff: "w \<in> conc {u} B \<longleftrightarrow> (\<exists>v. w = u @ v \<and> v \<in> B)"
  by (auto simp: conc_def)

lemma conc_chain:
  "s \<in> conc A (conc {g} (conc {l} (conc B (conc {r} C)))) \<longleftrightarrow>
     (\<exists>a b c. s = a @ g @ l @ b @ r @ c \<and> a \<in> A \<and> b \<in> B \<and> c \<in> C)"
  (is "?L \<longleftrightarrow> ?R")
proof
  assume ?L
  then obtain a v1 where 1: "s = a @ v1" "a \<in> A" "v1 \<in> conc {g} (conc {l} (conc B (conc {r} C)))"
    unfolding conc_iff [of s A] by blast
  from 1(3) obtain v2 where 2: "v1 = g @ v2" "v2 \<in> conc {l} (conc B (conc {r} C))"
    unfolding conc_single_iff by blast
  from 2(2) obtain v3 where 3: "v2 = l @ v3" "v3 \<in> conc B (conc {r} C)"
    unfolding conc_single_iff by blast
  from 3(2) obtain b v4 where 4: "v3 = b @ v4" "b \<in> B" "v4 \<in> conc {r} C"
    unfolding conc_iff [of v3 B] by blast
  from 4(3) obtain c where 5: "v4 = r @ c" "c \<in> C"
    unfolding conc_single_iff by blast
  from 1 2 3 4 5 show ?R by blast
next
  assume ?R
  then obtain a b c where s: "s = a @ g @ l @ b @ r @ c" and m: "a \<in> A" "b \<in> B" "c \<in> C"
    by blast
  from m(3) have "r @ c \<in> conc {r} C" unfolding conc_single_iff by blast
  with m(2) have "b @ r @ c \<in> conc B (conc {r} C)" unfolding conc_iff [of _ B] by blast
  then have "l @ b @ r @ c \<in> conc {l} (conc B (conc {r} C))"
    unfolding conc_single_iff [of _ l] by blast
  then have "g @ l @ b @ r @ c \<in> conc {g} (conc {l} (conc B (conc {r} C)))"
    unfolding conc_single_iff [of _ g] by blast
  with m(1) show ?L unfolding s conc_iff [of _ A] by blast
qed

lemma lang_genericPattern:
  "s \<in> lang (genericPattern g) \<longleftrightarrow> acceptsGeneric g s"
proof -
  have "lang (genericPattern g) =
      conc {w. list_all (\<lambda>x. \<not> lineTerminator x) w}
        (conc {js g} (conc {js ''<''}
          (conc {w. w \<noteq> [] \<and> list_all (\<lambda>x. \<not> lineTerminator x) w}
            (conc {js ''>''} {w. list_all (\<lambda>x. x \<notin> set (js ''[|]'')) w}))))"
    unfolding genericPattern_def Many1_def
    by (simp add: lang_lits star_units lang_plus_units)
  then have "s \<in> lang (genericPattern g) \<longleftrightarrow>
      (\<exists>a b c. s = a @ js g @ js ''<'' @ b @ js ''>'' @ c
         \<and> a \<in> {w. list_all (\<lambda>x. \<not> lineTerminator x) w}
         \<and> b \<in> {w. w \<noteq> [] \<and> list_all (\<lambda>x. \<not> lineTerminator x) w}
         \<and> c \<in> {w. list_all (\<lambda>x. x \<notin> set (js ''[|]'')) w})"
    by (simp only: conc_chain)
  then show ?thesis
    unfolding acceptsGeneric_def by simp
qed

lemma test_genericPattern: "test (genericPattern g) s \<longleftrightarrow> acceptsGeneric g s"
  by (simp add: test_lang lang_genericPattern)

lemma strategy_char:
  "strategy s =
     (if acceptsGeneric ''Observable'' s then Stream
      else if acceptsGeneric ''Promise'' s then Deferred else Direct)"
proof -
  have "js ''add'' \<noteq> js ''observe''" by code_simp
  then show ?thesis
    by (simp add: strategy_def getQueueMethodForReturnType_def test_genericPattern)
qed

section \<open>What the functions compute\<close>

subsection \<open>Extraction\<close>

lemma compact_map:
  "compact (map f xs) = map (\<lambda>x. the (f x)) (filter (\<lambda>x. f x \<noteq> None) xs)"
proof (induction xs)
  case Nil
  show ?case by simp
next
  case (Cons x xs)
  then show ?case by (cases "f x") simp_all
qed

lemma parse_argument:
  "parseMethodArgumentDeclarationMetadata p = (if isParameter p then Some (argumentOf p) else None)"
proof (cases p)
  case (Parameter pname ptype)
  then show ?thesis
    by (cases pname; cases ptype) (simp_all add: argumentOf_def)
next
  case OtherParameterKind
  then show ?thesis by simp
qed

lemma parse_arguments:
  "compact (map parseMethodArgumentDeclarationMetadata ps) = map argumentOf (filter isParameter ps)"
  by (induction ps) (simp_all add: parse_argument)

lemma typed_arguments:
  "map (\<lambda>a. a_name a @ js '': '' @ a_type a) (map argumentOf ps) =
     map (\<lambda>p. parameterName p @ js '': '' @ parameterType p) ps"
  by (simp add: argumentOf_def)

lemma parse_method:
  "parseMethodDeclarationMetadata e = (if isMethodDeclaration e then Some (metadataOf e) else None)"
proof (cases e)
  case (MethodDeclaration mname ps mtype head)
  then show ?thesis
    by (cases mname; cases mtype)
      (simp_all add: Let_def metadataOf_def declarationHead_def typedParameters_def
        parse_arguments typed_arguments del: map_map)
next
  case OtherElement
  then show ?thesis by simp
qed

lemma parse_methods:
  "parseMethodDeclarationMetadataList members = map metadataOf (methodsOf members)"
  unfolding parseMethodDeclarationMetadataList_def methodsOf_def
  by (induction members) (simp_all add: parse_method)

lemma metadata_simps:
  "m_name (metadataOf e) = methodName e"
  "m_declarationText (metadataOf e) = declarationHead e"
  "m_returnType (metadataOf e) = methodReturnType e"
  "map a_name (m_args (metadataOf e)) = map parameterName (filter isParameter (methodParameters e))"
  by (simp_all add: metadataOf_def argumentOf_def comp_def)

subsection \<open>Emission\<close>

lemma queue_method_strategy:
  "(case getQueueMethodForReturnType t of
      Some q \<Rightarrow> js ''this.queue.'' @ q @ js ''(() => '' @ call @ js '')''
    | None \<Rightarrow> call) = dispatchCall (strategy t) call"
proof -
  have ne: "js ''add'' \<noteq> js ''observe''" by code_simp
  have "js ''this.queue.'' @ js ''observe'' @ js ''(() => '' = js ''this.queue.observe(() => ''"
    by code_simp
  then have obs: "js ''this.queue.'' @ js ''observe'' @ js ''(() => '' @ r
      = js ''this.queue.observe(() => '' @ r" for r
    by (metis append_assoc)
  have "js ''this.queue.'' @ js ''add'' @ js ''(() => '' = js ''this.queue.add(() => ''"
    by code_simp
  then have add: "js ''this.queue.'' @ js ''add'' @ js ''(() => '' @ r
      = js ''this.queue.add(() => '' @ r" for r
    by (metis append_assoc)
  show ?thesis
    by (simp add: strategy_def getQueueMethodForReturnType_def ne obs add)
qed

lemma source_call:
  "js ''this.'' @ js ''source'' @ js ''.'' @ r = js ''this.source.'' @ r"
proof -
  have "js ''this.'' @ js ''source'' @ js ''.'' = js ''this.source.''" by code_simp
  then show ?thesis by (metis append_assoc)
qed

lemma guard_method:
  "generateClassGuardMethod (metadataOf e) (js ''source'') indent =
     indent @ declarationHead e @ js '' {'' @ nl
     @ indent @ tab @ js ''return ''
     @ dispatchCall (strategy (methodReturnType e)) (delegatingCall e) @ js '';'' @ nl
     @ indent @ js ''}''"
  unfolding generateClassGuardMethod_def Let_def queue_method_strategy
  by (simp add: metadata_simps delegatingCall_def source_call)

subsection \<open>Locating the class\<close>

lemma find_class_fold:
  "foldl (\<lambda>result n.
        if result \<noteq> None then result
        else if \<not> isClassDeclarationWithIdentifier n target then result
        else Some n) acc ns =
   (case acc of Some c \<Rightarrow> Some c
    | None \<Rightarrow> find (\<lambda>n. isClassDeclarationWithIdentifier n target) ns)"
  by (induction ns arbitrary: acc) (auto split: option.splits)

lemma find_class:
  "findClassNodeByName source target =
     find (\<lambda>n. isClassDeclarationWithIdentifier n target) (sf_children source)"
  unfolding findClassNodeByName_def find_class_fold by simp

lemma is_class_iff:
  "isClassDeclarationWithIdentifier n target \<longleftrightarrow>
     (\<exists>t members. n = ClassDeclaration (Some (Identifier target t)) members)"
  by (induction n target rule: isClassDeclarationWithIdentifier.induct) auto

lemma find_class_none:
  "findClassNodeByName source target = None \<longleftrightarrow> \<not> declaresClass (sf_children source) target"
  by (auto simp: find_class find_None_iff is_class_iff declaresClass_def)

lemma find_class_some:
  assumes "findClassNodeByName source target = Some c"
  shows "\<exists>t members. c = ClassDeclaration (Some (Identifier target t)) members
           \<and> c \<in> set (sf_children source)"
proof -
  from assms have "isClassDeclarationWithIdentifier c target" and "c \<in> set (sf_children source)"
    by (auto simp: find_class find_Some_iff)
  then show ?thesis by (auto simp: is_class_iff)
qed

lemma not_found_message:
  "js ''[GuardGenerator] '' @ js ''Definition for input '' @ r = notFoundMessage n
     \<longleftrightarrow> r = dquote @ n @ dquote
       @ js '' does not contain a cordova plugin class declaration''"
  by (simp add: notFoundMessage_def js_def)

lemma output_of_class:
  "generateOutputFromClassSource ts outName (ClassDeclaration (Some (Identifier e t)) members)
     = createSourceFile ts outName (sourceFileText e members)"
  by (simp add: generateOutputFromClassSource_def)

lemma generateAst_result:
  "fst (generateAst ts options con) =
     (case assigned (inputFileName options) of
        None \<Rightarrow> Inl TypeError
      | Some inName \<Rightarrow>
          (case findClassNodeByName (sourceFile ts inName (inputFileText options))
                  (inputFileTargetClass options) of
             None \<Rightarrow> Inl (Error (notFoundMessage inName))
           | Some c \<Rightarrow>
               generateOutputFromClassSource ts (assigned (outputFileName options)) c))"
  unfolding generateAst_def Let_def assert_def
  by (cases "assigned (inputFileName options)")
    (simp_all add: not_found_message split: option.splits)

section \<open>Classification\<close>

lemma strategy_table:
  "strategy (js ''Observable<string>'') = Stream"
  "strategy (js ''Promise<void>'') = Deferred"
  "strategy (js ''Observable<number>[]'') = Direct"
  "strategy (js ''void'') = Direct"
  "strategy (js ''any'') = Direct"
  by code_simp+

lemma accepted_contains:
  assumes "acceptsGeneric g s"
  shows "containsGenericNotArraySuffixed g s"
proof -
  from assms obtain a b c where s: "s = a @ js g @ js ''<'' @ b @ js ''>'' @ c"
    and c: "list_all (\<lambda>x. x \<notin> set (js ''[|]'')) c"
    unfolding acceptsGeneric_def by blast
  from c have "take 1 c \<noteq> js ''[''"
    by (cases c) (auto simp: js_def)
  with s show ?thesis unfolding containsGenericNotArraySuffixed_def by blast
qed

text \<open>
  C1, as amended. The classifier gives \<open>Stream\<close> exactly to the texts that the first
  pattern accepts: some text without line terminator, \<open>Observable<\<close>, a non-empty text
  without line terminator, \<open>>\<close>, and after it neither \<open>[\<close> nor \<open>|\<close> nor \<open>]\<close> up to the
  end. It gives \<open>Deferred\<close> to the other texts that the same pattern for \<open>Promise\<close>
  accepts, and \<open>Direct\<close> to the rest. For every method, whatever its name and
  parameters, \<open>Observable<string>\<close> is \<open>Stream\<close>, \<open>Promise<void>\<close> is \<open>Deferred\<close>,
  \<open>Observable<number>[]\<close> and \<open>void\<close> are \<open>Direct\<close>, and a method without return type
  annotation gets \<open>any\<close> and is \<open>Direct\<close>.
\<close>

theorem classifier_strategy:
  "strategy s =
     (if acceptsGeneric ''Observable'' s then Stream
      else if acceptsGeneric ''Promise'' s then Deferred else Direct)
   \<and> (\<exists>m. parseMethodDeclarationMetadata
             (MethodDeclaration mname ps (Some (js ''Observable<string>'')) head) = Some m
          \<and> strategy (m_returnType m) = Stream)
   \<and> (\<exists>m. parseMethodDeclarationMetadata
             (MethodDeclaration mname ps (Some (js ''Promise<void>'')) head) = Some m
          \<and> strategy (m_returnType m) = Deferred)
   \<and> (\<exists>m. parseMethodDeclarationMetadata
             (MethodDeclaration mname ps (Some (js ''Observable<number>[]'')) head) = Some m
          \<and> strategy (m_returnType m) = Direct)
   \<and> (\<exists>m. parseMethodDeclarationMetadata
             (MethodDeclaration mname ps (Some (js ''void'')) head) = Some m
          \<and> strategy (m_returnType m) = Direct)
   \<and> (\<exists>m. parseMethodDeclarationMetadata (MethodDeclaration mname ps None head) = Some m
          \<and> m_returnType m = js ''any'' \<and> strategy (m_returnType m) = Direct)"
  by (simp add: strategy_char [symmetric] parse_method metadata_simps strategy_table)

text \<open>
  C1 as stated fails: the union type \<open>Observable<string> | null\<close> contains the generic
  \<open>Observable<string>\<close>, no array bracket follows it, and yet the classifier answers
  \<open>Direct\<close>, because of the \<open>|\<close> after the \<open>>\<close>.
\<close>

theorem classifier_union_counterexample:
  "containsGenericNotArraySuffixed ''Observable'' (js ''Observable<string> | null'')
   \<and> strategy (js ''Observable<string> | null'') = Direct"
proof
  have "js ''Observable<string> | null'' =
      [] @ js ''Observable'' @ js ''<'' @ js ''string'' @ js ''>'' @ js '' | null''"
    by (simp add: js_def)
  moreover have "take 1 (js '' | null'') \<noteq> js ''[''"
    by (simp add: js_def)
  ultimately show "containsGenericNotArraySuffixed ''Observable'' (js ''Observable<string> | null'')"
    unfolding containsGenericNotArraySuffixed_def by blast
  show "strategy (js ''Observable<string> | null'') = Direct"
    by code_simp
qed

section \<open>The failure\<close>

lemma generate_result:
  "fst (generate ts options con) = map_sum id (printFile ts) (fst (generateAst ts options con))"
  unfolding generate_def
  by (cases "generateAst ts options con"; cases "fst (generateAst ts options con)") auto

lemma located_output:
  assumes "fst (generateAst ts options con) = Inr out"
  shows "\<exists>inName outName t members.
      assigned (inputFileName options) = Some inName
      \<and> assigned (outputFileName options) = Some outName
      \<and> findClassNodeByName (sourceFile ts inName (inputFileText options))
          (inputFileTargetClass options)
          = Some (ClassDeclaration (Some (Identifier (inputFileTargetClass options) t)) members)
      \<and> out = sourceFile ts outName (sourceFileText (inputFileTargetClass options) members)"
proof (cases "assigned (inputFileName options)")
  case None
  with assms show ?thesis by (simp add: generateAst_result)
next
  case (Some inName)
  show ?thesis
  proof (cases "findClassNodeByName (sourceFile ts inName (inputFileText options))
        (inputFileTargetClass options)")
    case None
    with assms Some show ?thesis by (simp add: generateAst_result)
  next
    case found: (Some c)
    then obtain t members
      where c: "c = ClassDeclaration (Some (Identifier (inputFileTargetClass options) t)) members"
      using find_class_some by blast
    show ?thesis
    proof (cases "assigned (outputFileName options)")
      case None
      with assms Some found c show ?thesis by (simp add: generateAst_result output_of_class)
    next
      case out: (Some outName)
      with assms Some found c show ?thesis by (simp add: generateAst_result output_of_class)
    qed
  qed
qed

lemma output_text:
  "sourceFileText className members =
     importLines @ nl
     @ interfaceDeclaration (className @ js ''Like'')
         (generateClassInterfaceMethods (parseMethodDeclarationMetadataList members) tab)
     @ nl @ nl
     @ classDeclaration (className @ js ''Guard'') (className @ js ''Like'')
         (tab @ nl @ queueField @ nl @ tab @ nl
          @ constructorDeclaration (className @ js ''Like'') @ nl @ nl
          @ generateClassGuardMethodList (parseMethodDeclarationMetadataList members)
              (js ''source'') tab)
     @ nl"
proof -
  have "js ''public readonly '' @ js ''source'' @ js '': '' = js ''public readonly source: ''"
    by (simp add: js_def)
  then have "js ''public readonly '' @ js ''source'' @ js '': '' @ r
      = js ''public readonly source: '' @ r" for r
    by (metis append_assoc)
  then show ?thesis
    by (simp add: sourceFileText_def Let_def importLines_def interfaceDeclaration_def
        classDeclaration_def queueField_def constructorDeclaration_def)
qed

lemma generate_cases:
  assumes "assigned (inputFileName options) = Some inName"
  shows "fst (generate ts options con) =
     (if declaresClass (parse ts inName (inputFileText options)) (inputFileTargetClass options)
      then map_sum id (printFile ts)
        (createSourceFile ts (assigned (outputFileName options))
           (sourceFileText (inputFileTargetClass options)
              (the (nodeMembers (the (findClassNodeByName
                 (sourceFile ts inName (inputFileText options))
                 (inputFileTargetClass options)))))))
      else Inl (Error (notFoundMessage inName)))"
proof (cases "findClassNodeByName (sourceFile ts inName (inputFileText options))
        (inputFileTargetClass options)")
  case None
  then have "\<not> declaresClass (parse ts inName (inputFileText options))
      (inputFileTargetClass options)"
    by (simp add: find_class_none sourceFile_def)
  with None assms show ?thesis by (simp add: generate_result generateAst_result)
next
  case (Some c)
  then have "declaresClass (parse ts inName (inputFileText options))
      (inputFileTargetClass options)"
    using find_class_none [of "sourceFile ts inName (inputFileText options)"
       "inputFileTargetClass options"]
    by (simp add: sourceFile_def)
  moreover from Some obtain t members
    where "c = ClassDeclaration (Some (Identifier (inputFileTargetClass options) t)) members"
    using find_class_some by blast
  ultimately show ?thesis
    using Some assms by (simp add: generate_result generateAst_result output_of_class)
qed

lemma undefined_file_name:
  "assigned (inputFileName options) = None \<Longrightarrow> fst (generate ts options con) = Inl TypeError"
  "assigned (inputFileName options) = Some inName \<Longrightarrow>
     declaresClass (parse ts inName (inputFileText options)) (inputFileTargetClass options) \<Longrightarrow>
     assigned (outputFileName options) = None \<Longrightarrow>
     fst (generate ts options con) = Inl TypeError"
  by (simp_all add: generate_cases) (simp add: generate_result generateAst_result)



lemma sample_not_declares:
  "\<not> declaresClass sampleFile (js ''Nope'')"
  "\<not> declaresClass sampleFile (js ''__Bar'')"
  unfolding declaresClass_def sampleFile_def ident_def by (simp_all add: js_def)


lemma startsWith_iff: "startsWith s p \<longleftrightarrow> (\<exists>b. s = p @ b)"
  by (induction s p rule: startsWith.induct) auto

lemma containsText_iff: "containsText s p \<longleftrightarrow> (\<exists>a b. s = a @ p @ b)"
proof (induction s)
  case Nil
  show ?case by (simp add: startsWith_iff)
next
  case (Cons x xs)
  show ?case
  proof
    assume "containsText (x # xs) p"
    then consider "startsWith (x # xs) p" | "containsText xs p" by auto
    then show "\<exists>a b. x # xs = a @ p @ b"
    proof cases
      case 1
      then obtain b where "x # xs = [] @ p @ b" by (auto simp: startsWith_iff)
      then show ?thesis by blast
    next
      case 2
      with Cons obtain a b where "xs = a @ p @ b" by blast
      then have "x # xs = (x # a) @ p @ b" by simp
      then show ?thesis by blast
    qed
  next
    assume "\<exists>a b. x # xs = a @ p @ b"
    then obtain a b where ab: "x # xs = a @ p @ b" by blast
    show "containsText (x # xs) p"
    proof (cases a)
      case Nil
      with ab have "startsWith (x # xs) p" by (auto simp: startsWith_iff)
      then show ?thesis by simp
    next
      case (Cons y ys)
      with ab have "xs = ys @ p @ b" by simp
      with Cons.IH have "containsText xs p" by blast
      then show ?thesis by simp
    qed
  qed
qed


section \<open>The declaration heads\<close>

lemma interface_methods:
  "generateClassInterfaceMethods (parseMethodDeclarationMetadataList members) indent =
     join nl (map (\<lambda>e. indent @ declarationHead e @ js '';'') (methodsOf members))"
  by (simp add: generateClassInterfaceMethods_def parse_methods metadata_simps comp_def)

lemma guard_methods:
  "generateClassGuardMethodList (parseMethodDeclarationMetadataList members) (js ''source'') indent =
     join nl (map (\<lambda>e. indent @ declarationHead e @ js '' {'' @ nl
                     @ indent @ tab @ js ''return '' @ returnExpression e @ js '';'' @ nl
                     @ indent @ js ''}'') (methodsOf members))"
  by (simp add: generateClassGuardMethodList_def parse_methods comp_def guard_method
      returnExpression_def)

lemma dispatch_cases:
  "dispatchCall st call =
     (case st of Direct \<Rightarrow> call
      | Stream \<Rightarrow> js ''this.queue.observe(() => '' @ call @ js '')''
      | Deferred \<Rightarrow> js ''this.queue.add(() => '' @ call @ js '')'')"
  by (cases st) simp_all

lemma located_text:
  assumes "fst (generateAst ts options con) = Inr out"
  shows "\<exists>inName t members.
      assigned (inputFileName options) = Some inName
      \<and> findClassNodeByName (sourceFile ts inName (inputFileText options))
          (inputFileTargetClass options)
          = Some (ClassDeclaration (Some (Identifier (inputFileTargetClass options) t)) members)
      \<and> sf_text out = sourceFileText (inputFileTargetClass options) members"
  using located_output [OF assms] by (auto simp: sourceFile_def)

lemma sample_located:
  "findClassNodeByName (sourceFile sampleTs [] t) (js ''Foo'')
     = Some (ClassDeclaration (Some (ident ''Foo'')) fooMembers)"
  "findClassNodeByName (sourceFile sampleTs [] t) (js ''Plain'')
     = Some (ClassDeclaration (Some (ident ''Plain'')) plainMembers)"
  by (simp_all add: find_class sourceFile_def sampleTs_def sampleFile_def ident_def js_def)

lemma sample_output:
  "fst (generateAst sampleTs (sampleOptions ''Foo'' Absent Absent) [])
     = Inr (sourceFile sampleTs [] (sourceFileText (js ''Foo'') fooMembers))"
  "fst (generateAst sampleTs (sampleOptions ''Plain'' Absent Absent) [])
     = Inr (sourceFile sampleTs [] (sourceFileText (js ''Plain'') plainMembers))"
  by (simp_all add: generateAst_result sampleOptions_def sample_located ident_def output_of_class)

lemma join_lines:
  "join sep xs @ sep = (if xs = [] then sep else concat (map (\<lambda>x. x @ sep) xs))"
  by (induction sep xs rule: join.induct) simp_all

lemma interface_lines:
  "interfaceDeclaration iname (join nl xs) =
     js ''export interface '' @ iname @ js '' {'' @ nl
     @ (if xs = [] then nl else concat (map (\<lambda>x. x @ nl) xs)) @ js ''}''"
  using join_lines [of nl xs] by (simp add: interfaceDeclaration_def)

lemma class_lines:
  "classDeclaration cname iname (fixed @ join nl xs) =
     js ''export class '' @ cname @ js '' implements '' @ iname @ js '' {'' @ nl
     @ fixed @ (if xs = [] then nl else concat (map (\<lambda>x. x @ nl) xs)) @ js ''}''"
  using join_lines [of nl xs] by (simp add: classDeclaration_def)

lemma class_text:
  "classDeclaration (c @ js ''Guard'') (c @ js ''Like'')
      (tab @ nl @ queueField @ nl @ tab @ nl @ constructorDeclaration (c @ js ''Like'')
       @ nl @ nl @ join nl xs)
   = js ''export class '' @ c @ js ''Guard'' @ js '' implements '' @ c @ js ''Like''
     @ js '' {'' @ nl
     @ tab @ nl @ queueField @ nl @ tab @ nl @ constructorDeclaration (c @ js ''Like'')
     @ nl @ nl
     @ (if xs = [] then nl else concat (map (\<lambda>x. x @ nl) xs)) @ js ''}''"
  using class_lines [of "c @ js ''Guard''" "c @ js ''Like''"
      "tab @ nl @ queueField @ nl @ tab @ nl @ constructorDeclaration (c @ js ''Like'')
       @ nl @ nl" xs]
  by simp

lemma unit_text:
  "sourceFileText c members =
     importLines @ nl
     @ js ''export interface '' @ c @ js ''Like'' @ js '' {'' @ nl
     @ (if methodsOf members = [] then nl
        else concat (map (\<lambda>e. tab @ declarationHead e @ js '';'' @ nl) (methodsOf members)))
     @ js ''}'' @ nl @ nl
     @ js ''export class '' @ c @ js ''Guard'' @ js '' implements '' @ c @ js ''Like''
     @ js '' {'' @ nl
     @ tab @ nl @ queueField @ nl @ tab @ nl @ constructorDeclaration (c @ js ''Like'')
     @ nl @ nl
     @ (if methodsOf members = [] then nl
        else concat (map (\<lambda>e. tab @ declarationHead e @ js '' {'' @ nl
                @ tab @ tab @ js ''return '' @ returnExpression e @ js '';'' @ nl
                @ tab @ js ''}'' @ nl) (methodsOf members)))
     @ js ''}'' @ nl"
  unfolding output_text interface_methods guard_methods interface_lines class_text
  by (simp add: comp_def)

text \<open>
  C3, as amended. For every method of the located class the generated interface and the
  generated guard class carry the same head, and it is the text
  \<open>name(arg: type, ...): returnType\<close> rebuilt from the parts of the source method: its name
  text, the name text and the full text of the type annotation of each parameter (empty
  without annotation) and the full text of its return type annotation (\<open>any\<close> without
  annotation). In the interface the head is followed by \<open>;\<close>, in the class by the body:
  the text of the generated unit is, in full, the one below.
\<close>

theorem signature_fidelity:
  assumes "fst (generateAst ts options con) = Inr out"
  shows "\<exists>inName t members.
      assigned (inputFileName options) = Some inName
      \<and> findClassNodeByName (sourceFile ts inName (inputFileText options))
          (inputFileTargetClass options)
          = Some (ClassDeclaration (Some (Identifier (inputFileTargetClass options) t)) members)
      \<and> sf_text out =
          importLines @ nl
          @ js ''export interface '' @ inputFileTargetClass options @ js ''Like'' @ js '' {'' @ nl
          @ (if methodsOf members = [] then nl
             else concat (map (\<lambda>e. tab @ declarationHead e @ js '';'' @ nl)
                 (methodsOf members)))
          @ js ''}'' @ nl @ nl
          @ js ''export class '' @ inputFileTargetClass options @ js ''Guard''
          @ js '' implements '' @ inputFileTargetClass options @ js ''Like'' @ js '' {'' @ nl
          @ tab @ nl @ queueField @ nl @ tab @ nl
          @ constructorDeclaration (inputFileTargetClass options @ js ''Like'') @ nl @ nl
          @ (if methodsOf members = [] then nl
             else concat (map (\<lambda>e. tab @ declarationHead e @ js '' {'' @ nl
                     @ tab @ tab @ js ''return '' @ returnExpression e @ js '';'' @ nl
                     @ tab @ js ''}'' @ nl) (methodsOf members)))
          @ js ''}'' @ nl"
  using located_text [OF assms]
  unfolding unit_text by blast

theorem signature_fidelity_witness:
  "fst (generateAst sampleTs (sampleOptions ''Foo'' Absent Absent) [])
     = Inr (sourceFile sampleTs [] (sourceFileText (js ''Foo'') fooMembers))
   \<and> (\<exists>inName t members.
      assigned Absent = Some inName
      \<and> findClassNodeByName (sourceFile sampleTs inName (js ''export class Foo {}'')) (js ''Foo'')
          = Some (ClassDeclaration (Some (Identifier (js ''Foo'') t)) members)
      \<and> sourceFileText (js ''Foo'') fooMembers =
          importLines @ nl
          @ js ''export interface '' @ js ''Foo'' @ js ''Like'' @ js '' {'' @ nl
          @ (if methodsOf members = [] then nl
             else concat (map (\<lambda>e. tab @ declarationHead e @ js '';'' @ nl)
                 (methodsOf members)))
          @ js ''}'' @ nl @ nl
          @ js ''export class '' @ js ''Foo'' @ js ''Guard''
          @ js '' implements '' @ js ''Foo'' @ js ''Like'' @ js '' {'' @ nl
          @ tab @ nl @ queueField @ nl @ tab @ nl
          @ constructorDeclaration (js ''Foo'' @ js ''Like'') @ nl @ nl
          @ (if methodsOf members = [] then nl
             else concat (map (\<lambda>e. tab @ declarationHead e @ js '' {'' @ nl
                     @ tab @ tab @ js ''return '' @ returnExpression e @ js '';'' @ nl
                     @ tab @ js ''}'' @ nl) (methodsOf members)))
          @ js ''}'' @ nl)"
proof
  show "fst (generateAst sampleTs (sampleOptions ''Foo'' Absent Absent) [])
     = Inr (sourceFile sampleTs [] (sourceFileText (js ''Foo'') fooMembers))"
    by (rule sample_output)
  from signature_fidelity [OF sample_output(1)]
  show "\<exists>inName t members.
      assigned Absent = Some inName
      \<and> findClassNodeByName (sourceFile sampleTs inName (js ''export class Foo {}'')) (js ''Foo'')
          = Some (ClassDeclaration (Some (Identifier (js ''Foo'') t)) members)
      \<and> sourceFileText (js ''Foo'') fooMembers =
          importLines @ nl
          @ js ''export interface '' @ js ''Foo'' @ js ''Like'' @ js '' {'' @ nl
          @ (if methodsOf members = [] then nl
             else concat (map (\<lambda>e. tab @ declarationHead e @ js '';'' @ nl)
                 (methodsOf members)))
          @ js ''}'' @ nl @ nl
          @ js ''export class '' @ js ''Foo'' @ js ''Guard''
          @ js '' implements '' @ js ''Foo'' @ js ''Like'' @ js '' {'' @ nl
          @ tab @ nl @ queueField @ nl @ tab @ nl
          @ constructorDeclaration (js ''Foo'' @ js ''Like'') @ nl @ nl
          @ (if methodsOf members = [] then nl
             else concat (map (\<lambda>e. tab @ declarationHead e @ js '' {'' @ nl
                     @ tab @ tab @ js ''return '' @ returnExpression e @ js '';'' @ nl
                     @ tab @ js ''}'' @ nl) (methodsOf members)))
          @ js ''}'' @ nl"
    by (simp add: sampleOptions_def sourceFile_def)
qed

text \<open>
  C3 as stated fails: the generated head is not the head of the source method. The
  source writes \<open>bar(x: number): Promise<string>\<close> and the generated head is
  \<open>bar(x:  number):  Promise<string>\<close>, since the full text of a type begins with the
  space after the colon; the source writes \<open>load(id?: string): void\<close> and the generated
  head has lost the question mark.
\<close>

theorem source_head_counterexample:
  "sourceHead barMethod = js ''bar(x: number): Promise<string>''
   \<and> map_option m_declarationText (parseMethodDeclarationMetadata barMethod)
       = Some (js ''bar(x:  number):  Promise<string>'')
   \<and> map_option m_declarationText (parseMethodDeclarationMetadata barMethod)
       \<noteq> Some (sourceHead barMethod)
   \<and> sourceHead loadMethod = js ''load(id?: string): void''
   \<and> map_option m_declarationText (parseMethodDeclarationMetadata loadMethod)
       = Some (js ''load(id:  string):  void'')
   \<and> generateClassInterfaceMethods (parseMethodDeclarationMetadataList [barMethod, loadMethod]) tab
       = tab @ js ''bar(x:  number):  Promise<string>;'' @ nl
         @ tab @ js ''load(id:  string):  void;''"
  by (simp add: barMethod_def loadMethod_def ident_def Let_def js_def
      generateClassInterfaceMethods_def parseMethodDeclarationMetadataList_def)

section \<open>The generated members\<close>

lemma guard_text:
  "sourceFileText c members =
     importLines @ nl
     @ interfaceDeclaration (c @ js ''Like'')
         (generateClassInterfaceMethods (parseMethodDeclarationMetadataList members) tab)
     @ nl @ nl
     @ js ''export class '' @ c @ js ''Guard'' @ js '' implements '' @ c @ js ''Like''
     @ js '' {'' @ nl
     @ tab @ nl @ queueField @ nl @ tab @ nl @ constructorDeclaration (c @ js ''Like'')
     @ nl @ nl
     @ (if methodsOf members = [] then nl
        else concat (map (\<lambda>e. tab @ declarationHead e @ js '' {'' @ nl
                @ tab @ tab @ js ''return ''
                @ (case strategy (methodReturnType e) of
                     Direct \<Rightarrow> delegatingCall e
                   | Stream \<Rightarrow> js ''this.queue.observe(() => '' @ delegatingCall e @ js '')''
                   | Deferred \<Rightarrow> js ''this.queue.add(() => '' @ delegatingCall e @ js '')'')
                @ js '';'' @ nl
                @ tab @ js ''}'' @ nl) (methodsOf members)))
     @ js ''}'' @ nl"
  unfolding output_text guard_methods class_text
  by (simp add: comp_def returnExpression_def dispatch_cases)

text \<open>
  C4. Every method of the located class has its guard method in the generated class, in
  declaration order and nothing else after the constructor, and the body of that method
  returns the delegating call
  \<open>this.source.name(args)\<close> when the strategy of the return type is \<open>Direct\<close>,
  \<open>this.queue.observe(() => call)\<close> when it is \<open>Stream\<close> and \<open>this.queue.add(() => call)\<close>
  when it is \<open>Deferred\<close>, with the same call inside the closure.
\<close>

theorem guard_method_body:
  assumes "fst (generateAst ts options con) = Inr out"
  shows "\<exists>inName t members.
      assigned (inputFileName options) = Some inName
      \<and> findClassNodeByName (sourceFile ts inName (inputFileText options))
          (inputFileTargetClass options)
          = Some (ClassDeclaration (Some (Identifier (inputFileTargetClass options) t)) members)
      \<and> sf_text out =
          importLines @ nl
          @ interfaceDeclaration (inputFileTargetClass options @ js ''Like'')
              (generateClassInterfaceMethods (parseMethodDeclarationMetadataList members) tab)
          @ nl @ nl
          @ js ''export class '' @ inputFileTargetClass options @ js ''Guard''
          @ js '' implements '' @ inputFileTargetClass options @ js ''Like'' @ js '' {'' @ nl
          @ tab @ nl @ queueField @ nl @ tab @ nl
          @ constructorDeclaration (inputFileTargetClass options @ js ''Like'') @ nl @ nl
          @ (if methodsOf members = [] then nl
             else concat (map (\<lambda>e. tab @ declarationHead e @ js '' {'' @ nl
                     @ tab @ tab @ js ''return ''
                     @ (case strategy (methodReturnType e) of
                          Direct \<Rightarrow> delegatingCall e
                        | Stream \<Rightarrow> js ''this.queue.observe(() => '' @ delegatingCall e @ js '')''
                        | Deferred \<Rightarrow> js ''this.queue.add(() => '' @ delegatingCall e @ js '')'')
                     @ js '';'' @ nl
                     @ tab @ js ''}'' @ nl) (methodsOf members)))
          @ js ''}'' @ nl"
  using located_text [OF assms]
  unfolding guard_text by blast

theorem guard_method_body_witness:
  "fst (generateAst sampleTs (sampleOptions ''Foo'' Absent Absent) [])
     = Inr (sourceFile sampleTs [] (sourceFileText (js ''Foo'') fooMembers))
   \<and> map (\<lambda>e. strategy (methodReturnType e)) (methodsOf fooMembers)
       = [Deferred, Stream, Direct, Direct]
   \<and> (\<exists>inName t members.
      assigned Absent = Some inName
      \<and> findClassNodeByName (sourceFile sampleTs inName (js ''export class Foo {}'')) (js ''Foo'')
          = Some (ClassDeclaration (Some (Identifier (js ''Foo'') t)) members)
      \<and> sourceFileText (js ''Foo'') fooMembers =
          importLines @ nl
          @ interfaceDeclaration (js ''Foo'' @ js ''Like'')
              (generateClassInterfaceMethods (parseMethodDeclarationMetadataList members) tab)
          @ nl @ nl
          @ js ''export class '' @ js ''Foo'' @ js ''Guard''
          @ js '' implements '' @ js ''Foo'' @ js ''Like'' @ js '' {'' @ nl
          @ tab @ nl @ queueField @ nl @ tab @ nl
          @ constructorDeclaration (js ''Foo'' @ js ''Like'') @ nl @ nl
          @ (if methodsOf members = [] then nl
             else concat (map (\<lambda>e. tab @ declarationHead e @ js '' {'' @ nl
                     @ tab @ tab @ js ''return ''
                     @ (case strategy (methodReturnType e) of
                          Direct \<Rightarrow> delegatingCall e
                        | Stream \<Rightarrow> js ''this.queue.observe(() => '' @ delegatingCall e @ js '')''
                        | Deferred \<Rightarrow> js ''this.queue.add(() => '' @ delegatingCall e @ js '')'')
                     @ js '';'' @ nl
                     @ tab @ js ''}'' @ nl) (methodsOf members)))
          @ js ''}'' @ nl)"
proof (intro conjI)
  show "fst (generateAst sampleTs (sampleOptions ''Foo'' Absent Absent) [])
     = Inr (sourceFile sampleTs [] (sourceFileText (js ''Foo'') fooMembers))"
    by (rule sample_output)
  show "map (\<lambda>e. strategy (methodReturnType e)) (methodsOf fooMembers)
       = [Deferred, Stream, Direct, Direct]"
    by code_simp
  from guard_method_body [OF sample_output(1)]
  show "\<exists>inName t members.
      assigned Absent = Some inName
      \<and> findClassNodeByName (sourceFile sampleTs inName (js ''export class Foo {}'')) (js ''Foo'')
          = Some (ClassDeclaration (Some (Identifier (js ''Foo'') t)) members)
      \<and> sourceFileText (js ''Foo'') fooMembers =
          importLines @ nl
          @ interfaceDeclaration (js ''Foo'' @ js ''Like'')
              (generateClassInterfaceMethods (parseMethodDeclarationMetadataList members) tab)
          @ nl @ nl
          @ js ''export class '' @ js ''Foo'' @ js ''Guard''
          @ js '' implements '' @ js ''Foo'' @ js ''Like'' @ js '' {'' @ nl
          @ tab @ nl @ queueField @ nl @ tab @ nl
          @ constructorDeclaration (js ''Foo'' @ js ''Like'') @ nl @ nl
          @ (if methodsOf members = [] then nl
             else concat (map (\<lambda>e. tab @ declarationHead e @ js '' {'' @ nl
                     @ tab @ tab @ js ''return ''
                     @ (case strategy (methodReturnType e) of
                          Direct \<Rightarrow> delegatingCall e
                        | Stream \<Rightarrow> js ''this.queue.observe(() => '' @ delegatingCall e @ js '')''
                        | Deferred \<Rightarrow> js ''this.queue.add(() => '' @ delegatingCall e @ js '')'')
                     @ js '';'' @ nl
                     @ tab @ js ''}'' @ nl) (methodsOf members)))
          @ js ''}'' @ nl"
    by (simp add: sampleOptions_def sourceFile_def)
qed

text \<open>
  C5. The methods extracted from the located class are its method declarations in
  declaration order, other members left out, and the generated interface and the
  generated guard class each consist of one entry per such method, in that order, each
  entry beginning with the name of its method: the sequence of method names of both is
  the sequence of the method declarations of the source class. A class without methods
  leaves one empty line in their place.
\<close>

theorem method_order:
  assumes "fst (generateAst ts options con) = Inr out"
  shows "\<exists>inName t members.
      assigned (inputFileName options) = Some inName
      \<and> findClassNodeByName (sourceFile ts inName (inputFileText options))
          (inputFileTargetClass options)
          = Some (ClassDeclaration (Some (Identifier (inputFileTargetClass options) t)) members)
      \<and> map m_name (parseMethodDeclarationMetadataList members)
          = map methodName (filter isMethodDeclaration members)
      \<and> sf_text out =
          importLines @ nl
          @ js ''export interface '' @ inputFileTargetClass options @ js ''Like'' @ js '' {'' @ nl
          @ (if filter isMethodDeclaration members = [] then nl
             else concat (map (\<lambda>e. tab @ methodName e @ js ''('' @ typedParameters e
                     @ js ''): '' @ methodReturnType e @ js '';'' @ nl)
                 (filter isMethodDeclaration members)))
          @ js ''}'' @ nl @ nl
          @ js ''export class '' @ inputFileTargetClass options @ js ''Guard''
          @ js '' implements '' @ inputFileTargetClass options @ js ''Like'' @ js '' {'' @ nl
          @ tab @ nl @ queueField @ nl @ tab @ nl
          @ constructorDeclaration (inputFileTargetClass options @ js ''Like'') @ nl @ nl
          @ (if filter isMethodDeclaration members = [] then nl
             else concat (map (\<lambda>e. tab @ methodName e @ js ''('' @ typedParameters e
                     @ js ''): '' @ methodReturnType e @ js '' {'' @ nl
                     @ tab @ tab @ js ''return '' @ returnExpression e @ js '';'' @ nl
                     @ tab @ js ''}'' @ nl) (filter isMethodDeclaration members)))
          @ js ''}'' @ nl"
proof -
  have names: "map m_name (parseMethodDeclarationMetadataList members)
      = map methodName (filter isMethodDeclaration members)" for members
    by (simp add: parse_methods methodsOf_def metadata_simps comp_def)
  from located_text [OF assms] show ?thesis
    unfolding unit_text declarationHead_def methodsOf_def using names
    by (simp only: append_assoc) blast
qed

theorem method_order_witness:
  "fst (generateAst sampleTs (sampleOptions ''Foo'' Absent Absent) [])
     = Inr (sourceFile sampleTs [] (sourceFileText (js ''Foo'') fooMembers))
   \<and> map methodName (filter isMethodDeclaration fooMembers)
       = [js ''bar'', js ''baz'', js ''load'', js ''qux'']
   \<and> (\<exists>inName t members.
      assigned Absent = Some inName
      \<and> findClassNodeByName (sourceFile sampleTs inName (js ''export class Foo {}'')) (js ''Foo'')
          = Some (ClassDeclaration (Some (Identifier (js ''Foo'') t)) members)
      \<and> map m_name (parseMethodDeclarationMetadataList members)
          = map methodName (filter isMethodDeclaration members)
      \<and> sourceFileText (js ''Foo'') fooMembers =
          importLines @ nl
          @ js ''export interface '' @ js ''Foo'' @ js ''Like'' @ js '' {'' @ nl
          @ (if filter isMethodDeclaration members = [] then nl
             else concat (map (\<lambda>e. tab @ methodName e @ js ''('' @ typedParameters e
                     @ js ''): '' @ methodReturnType e @ js '';'' @ nl)
                 (filter isMethodDeclaration members)))
          @ js ''}'' @ nl @ nl
          @ js ''export class '' @ js ''Foo'' @ js ''Guard''
          @ js '' implements '' @ js ''Foo'' @ js ''Like'' @ js '' {'' @ nl
          @ tab @ nl @ queueField @ nl @ tab @ nl
          @ constructorDeclaration (js ''Foo'' @ js ''Like'') @ nl @ nl
          @ (if filter isMethodDeclaration members = [] then nl
             else concat (map (\<lambda>e. tab @ methodName e @ js ''('' @ typedParameters e
                     @ js ''): '' @ methodReturnType e @ js '' {'' @ nl
                     @ tab @ tab @ js ''return '' @ returnExpression e @ js '';'' @ nl
                     @ tab @ js ''}'' @ nl) (filter isMethodDeclaration members)))
          @ js ''}'' @ nl)"
proof (intro conjI)
  show "fst (generateAst sampleTs (sampleOptions ''Foo'' Absent Absent) [])
     = Inr (sourceFile sampleTs [] (sourceFileText (js ''Foo'') fooMembers))"
    by (rule sample_output)
  show "map methodName (filter isMethodDeclaration fooMembers)
       = [js ''bar'', js ''baz'', js ''load'', js ''qux'']"
    by (simp add: fooMembers_def barMethod_def loadMethod_def quxMethod_def ident_def)
  from method_order [OF sample_output(1)]
  show "\<exists>inName t members.
      assigned Absent = Some inName
      \<and> findClassNodeByName (sourceFile sampleTs inName (js ''export class Foo {}'')) (js ''Foo'')
          = Some (ClassDeclaration (Some (Identifier (js ''Foo'') t)) members)
      \<and> map m_name (parseMethodDeclarationMetadataList members)
          = map methodName (filter isMethodDeclaration members)
      \<and> sourceFileText (js ''Foo'') fooMembers =
          importLines @ nl
          @ js ''export interface '' @ js ''Foo'' @ js ''Like'' @ js '' {'' @ nl
          @ (if filter isMethodDeclaration members = [] then nl
             else concat (map (\<lambda>e. tab @ methodName e @ js ''('' @ typedParameters e
                     @ js ''): '' @ methodReturnType e @ js '';'' @ nl)
                 (filter isMethodDeclaration members)))
          @ js ''}'' @ nl @ nl
          @ js ''export class '' @ js ''Foo'' @ js ''Guard''
          @ js '' implements '' @ js ''Foo'' @ js ''Like'' @ js '' {'' @ nl
          @ tab @ nl @ queueField @ nl @ tab @ nl
          @ constructorDeclaration (js ''Foo'' @ js ''Like'') @ nl @ nl
          @ (if filter isMethodDeclaration members = [] then nl
             else concat (map (\<lambda>e. tab @ methodName e @ js ''('' @ typedParameters e
                     @ js ''): '' @ methodReturnType e @ js '' {'' @ nl
                     @ tab @ tab @ js ''return '' @ returnExpression e @ js '';'' @ nl
                     @ tab @ js ''}'' @ nl) (filter isMethodDeclaration members)))
          @ js ''}'' @ nl"
    by (simp add: sampleOptions_def sourceFile_def)
qed

section \<open>The generated text and the state\<close>

text \<open>
  C6. The text of the unit that a successful call builds is the two import lines, one
  interface declaration and then one class declaration. The class located in the input
  has the target name as identifier; the interface is named by that name followed by
  \<open>Like\<close>, the class by that name followed by \<open>Guard\<close>, and the class implements the
  interface. Both names are concatenations: what else the input declares plays no part.
\<close>

theorem output_declarations:
  assumes "fst (generateAst ts options con) = Inr out"
  shows "fst (generate ts options con) = Inr (printFile ts out)
    \<and> (\<exists>inName t members.
      assigned (inputFileName options) = Some inName
      \<and> findClassNodeByName (sourceFile ts inName (inputFileText options))
          (inputFileTargetClass options)
          = Some (ClassDeclaration (Some (Identifier (inputFileTargetClass options) t)) members)
      \<and> sf_text out =
          importLines @ nl
          @ interfaceDeclaration (inputFileTargetClass options @ js ''Like'')
              (generateClassInterfaceMethods (parseMethodDeclarationMetadataList members) tab)
          @ nl @ nl
          @ classDeclaration (inputFileTargetClass options @ js ''Guard'')
              (inputFileTargetClass options @ js ''Like'')
              (tab @ nl @ queueField @ nl @ tab @ nl
               @ constructorDeclaration (inputFileTargetClass options @ js ''Like'') @ nl @ nl
               @ generateClassGuardMethodList (parseMethodDeclarationMetadataList members)
                   (js ''source'') tab)
          @ nl)"
proof
  show "fst (generate ts options con) = Inr (printFile ts out)"
    using assms by (simp add: generate_result)
  from located_text [OF assms]
  show "\<exists>inName t members.
      assigned (inputFileName options) = Some inName
      \<and> findClassNodeByName (sourceFile ts inName (inputFileText options))
          (inputFileTargetClass options)
          = Some (ClassDeclaration (Some (Identifier (inputFileTargetClass options) t)) members)
      \<and> sf_text out =
          importLines @ nl
          @ interfaceDeclaration (inputFileTargetClass options @ js ''Like'')
              (generateClassInterfaceMethods (parseMethodDeclarationMetadataList members) tab)
          @ nl @ nl
          @ classDeclaration (inputFileTargetClass options @ js ''Guard'')
              (inputFileTargetClass options @ js ''Like'')
              (tab @ nl @ queueField @ nl @ tab @ nl
               @ constructorDeclaration (inputFileTargetClass options @ js ''Like'') @ nl @ nl
               @ generateClassGuardMethodList (parseMethodDeclarationMetadataList members)
                   (js ''source'') tab)
          @ nl"
    unfolding output_text by blast
qed

theorem output_declarations_witness:
  "fst (generateAst sampleTs (sampleOptions ''Foo'' Absent Absent) [])
     = Inr (sourceFile sampleTs [] (sourceFileText (js ''Foo'') fooMembers))
   \<and> (\<exists>inName t members.
      assigned Absent = Some inName
      \<and> findClassNodeByName (sourceFile sampleTs inName (js ''export class Foo {}'')) (js ''Foo'')
        = Some (ClassDeclaration (Some (Identifier (js ''Foo'') t)) members)
      \<and> sourceFileText (js ''Foo'') fooMembers =
          importLines @ nl
          @ interfaceDeclaration (js ''Foo'' @ js ''Like'')
              (generateClassInterfaceMethods (parseMethodDeclarationMetadataList members) tab)
          @ nl @ nl
          @ classDeclaration (js ''Foo'' @ js ''Guard'') (js ''Foo'' @ js ''Like'')
              (tab @ nl @ queueField @ nl @ tab @ nl
               @ constructorDeclaration (js ''Foo'' @ js ''Like'') @ nl @ nl
               @ generateClassGuardMethodList (parseMethodDeclarationMetadataList members)
                   (js ''source'') tab)
          @ nl)"
proof
  show "fst (generateAst sampleTs (sampleOptions ''Foo'' Absent Absent) [])
     = Inr (sourceFile sampleTs [] (sourceFileText (js ''Foo'') fooMembers))"
    by (rule sample_output)
  from conjunct2 [OF output_declarations [OF sample_output(1)]]
  show "\<exists>inName t members.
      assigned Absent = Some inName
      \<and> findClassNodeByName (sourceFile sampleTs inName (js ''export class Foo {}'')) (js ''Foo'')
        = Some (ClassDeclaration (Some (Identifier (js ''Foo'') t)) members)
      \<and> sourceFileText (js ''Foo'') fooMembers =
          importLines @ nl
          @ interfaceDeclaration (js ''Foo'' @ js ''Like'')
              (generateClassInterfaceMethods (parseMethodDeclarationMetadataList members) tab)
          @ nl @ nl
          @ classDeclaration (js ''Foo'' @ js ''Guard'') (js ''Foo'' @ js ''Like'')
              (tab @ nl @ queueField @ nl @ tab @ nl
               @ constructorDeclaration (js ''Foo'' @ js ''Like'') @ nl @ nl
               @ generateClassGuardMethodList (parseMethodDeclarationMetadataList members)
                   (js ''source'') tab)
          @ nl"
    by (simp add: sampleOptions_def sourceFile_def)
qed

text \<open>
  C7, as amended. The extracted argument list holds, in declared order, one entry per
  node of kind \<open>Parameter\<close>, whether the name of the parameter is an identifier or a binding
  pattern: \<open>name\<close> is the source text of the parameter's name and \<open>type\<close> the text of its
  type annotation, empty when there is none. Only a node of another kind is left out.
\<close>

theorem extracted_arguments:
  "\<exists>m. parseMethodDeclarationMetadata (MethodDeclaration mname ps mtype head) = Some m
     \<and> m_args m = map argumentOf (filter isParameter ps)
     \<and> map a_name (m_args m) = map parameterName (filter isParameter ps)
     \<and> map a_type (m_args m) = map parameterType (filter isParameter ps)"
  by (simp add: parse_method metadataOf_def argumentOf_def comp_def)

text \<open>
  C7 as stated fails: the first parameter of \<open>qux({ a, b }: Opts, y)\<close> is a destructuring
  parameter and no simple named parameter, and it is extracted, not skipped.
\<close>

theorem binding_pattern_counterexample:
  "map_option m_args (parseMethodDeclarationMetadata quxMethod)
     = Some [\<lparr>a_name = js ''{ a, b }'', a_type = js '' Opts''\<rparr>,
             \<lparr>a_name = js ''y'', a_type = []\<rparr>]
   \<and> simpleNamedArguments (methodParameters quxMethod) = [\<lparr>a_name = js ''y'', a_type = []\<rparr>]"
  by (simp add: quxMethod_def ident_def simpleNamedArguments_def argumentOf_def Let_def)

text \<open>
  C8, as amended. Two calls of \<open>generate\<close> with the same input text, the same target class
  and the same two file names, an absent name counting as the empty name, have the same
  result, the returned text or the error, whatever was called before: a call reads
  nothing of the console and only appends one entry to it.
\<close>

theorem determinism:
  assumes "inputFileText options1 = inputFileText options2"
    and "inputFileTargetClass options1 = inputFileTargetClass options2"
    and "assigned (inputFileName options1) = assigned (inputFileName options2)"
    and "assigned (outputFileName options1) = assigned (outputFileName options2)"
  shows "fst (generate ts options1 con1) = fst (generate ts options2 con2)
   \<and> fst (generate ts options2 (snd (generate ts options1 con1))) = fst (generate ts options1 con1)
   \<and> (\<exists>entry. snd (generate ts options1 con1) = con1 @ [entry])"
proof (intro conjI)
  have same: "fst (generate ts options1 c) = fst (generate ts options2 c')" for c c'
    unfolding generate_result generateAst_result assms by (rule refl)
  show "fst (generate ts options1 con1) = fst (generate ts options2 con2)"
    by (rule same)
  show "fst (generate ts options2 (snd (generate ts options1 con1)))
      = fst (generate ts options1 con1)"
    by (rule same [symmetric])
  show "\<exists>entry. snd (generate ts options1 con1) = con1 @ [entry]"
    unfolding generate_def generateAst_def Let_def assert_def
    by (auto split: option.splits sum.splits prod.splits)
qed

theorem determinism_witness:
  "inputFileText (sampleOptions ''Foo'' Absent Absent)
     = inputFileText (sampleOptions ''Foo'' (Given []) (Given []))
   \<and> inputFileTargetClass (sampleOptions ''Foo'' Absent Absent)
     = inputFileTargetClass (sampleOptions ''Foo'' (Given []) (Given []))
   \<and> assigned (inputFileName (sampleOptions ''Foo'' Absent Absent))
     = assigned (inputFileName (sampleOptions ''Foo'' (Given []) (Given [])))
   \<and> assigned (outputFileName (sampleOptions ''Foo'' Absent Absent))
     = assigned (outputFileName (sampleOptions ''Foo'' (Given []) (Given [])))
   \<and> fst (generate sampleTs (sampleOptions ''Foo'' Absent Absent) [])
     = fst (generate sampleTs (sampleOptions ''Foo'' (Given []) (Given []))
         (snd (generate sampleTs (sampleOptions ''Nope'' Absent Absent) [])))
   \<and> fst (generate sampleTs (sampleOptions ''Foo'' Absent Absent) [])
     = Inr (sourceFileText (js ''Foo'') fooMembers)"
proof -
  have a: "inputFileText (sampleOptions ''Foo'' Absent Absent)
     = inputFileText (sampleOptions ''Foo'' (Given []) (Given []))"
    and b: "inputFileTargetClass (sampleOptions ''Foo'' Absent Absent)
     = inputFileTargetClass (sampleOptions ''Foo'' (Given []) (Given []))"
    and c: "assigned (inputFileName (sampleOptions ''Foo'' Absent Absent))
     = assigned (inputFileName (sampleOptions ''Foo'' (Given []) (Given [])))"
    and d: "assigned (outputFileName (sampleOptions ''Foo'' Absent Absent))
     = assigned (outputFileName (sampleOptions ''Foo'' (Given []) (Given [])))"
    by (simp_all add: sampleOptions_def)
  have "fst (generate sampleTs (sampleOptions ''Foo'' Absent Absent) [])
     = Inr (sourceFileText (js ''Foo'') fooMembers)"
    using sample_output(1) by (simp add: generate_result sourceFile_def sampleTs_def)
  with a b c d
    conjunct1 [OF determinism [OF a b c d, of sampleTs "[]"
      "snd (generate sampleTs (sampleOptions ''Nope'' Absent Absent) [])"]]
  show ?thesis by simp
qed

text \<open>
  C8 as stated fails: with the input text and the target class fixed, two calls that
  differ in the input file name fail with different errors.
\<close>

theorem same_pair_counterexample:
  "inputFileText (sampleOptions ''Nope'' (Given (js ''a.ts'')) Absent)
     = inputFileText (sampleOptions ''Nope'' (Given (js ''b.ts'')) Absent)
   \<and> inputFileTargetClass (sampleOptions ''Nope'' (Given (js ''a.ts'')) Absent)
     = inputFileTargetClass (sampleOptions ''Nope'' (Given (js ''b.ts'')) Absent)
   \<and> fst (generate sampleTs (sampleOptions ''Nope'' (Given (js ''a.ts'')) Absent) [])
     = Inl (Error (notFoundMessage (js ''a.ts'')))
   \<and> fst (generate sampleTs (sampleOptions ''Nope'' (Given (js ''b.ts'')) Absent) [])
     = Inl (Error (notFoundMessage (js ''b.ts'')))
   \<and> fst (generate sampleTs (sampleOptions ''Nope'' (Given (js ''a.ts'')) Absent) [])
     \<noteq> fst (generate sampleTs (sampleOptions ''Nope'' (Given (js ''b.ts'')) Absent) [])"
proof -
  have a: "fst (generate sampleTs (sampleOptions ''Nope'' (Given (js ''a.ts'')) Absent) [])
     = Inl (Error (notFoundMessage (js ''a.ts'')))"
    using sample_not_declares(1) by (simp add: generate_cases sampleOptions_def sampleTs_def)
  have b: "fst (generate sampleTs (sampleOptions ''Nope'' (Given (js ''b.ts'')) Absent) [])
     = Inl (Error (notFoundMessage (js ''b.ts'')))"
    using sample_not_declares(1) by (simp add: generate_cases sampleOptions_def sampleTs_def)
  have "notFoundMessage (js ''a.ts'') \<noteq> notFoundMessage (js ''b.ts'')"
    by (simp add: notFoundMessage_def js_def)
  with a b show ?thesis by (simp add: sampleOptions_def)
qed

text \<open>
  C9. The text of the unit that a successful call builds begins with the two import lines
  and its class declaration opens with the \<open>queue\<close> field, whatever the methods of the
  class are and however they are classified.
\<close>

theorem fixed_imports_and_queue:
  assumes "fst (generateAst ts options con) = Inr out"
  shows "fst (generate ts options con) = Inr (printFile ts out)
    \<and> (\<exists>interfaceBody methods.
      sf_text out =
        js ''import { Observable } from '' @ quote @ js ''rxjs'' @ quote @ js '';'' @ nl
        @ js ''import { CommandQueue } from '' @ quote @ js ''@obsidize/command-queue''
        @ quote @ js '';'' @ nl
        @ nl
        @ interfaceDeclaration (inputFileTargetClass options @ js ''Like'') interfaceBody
        @ nl @ nl
        @ classDeclaration (inputFileTargetClass options @ js ''Guard'')
            (inputFileTargetClass options @ js ''Like'')
            (tab @ nl
             @ tab @ js ''public readonly queue: CommandQueue = new CommandQueue();'' @ nl
             @ methods)
        @ nl)"
proof
  show "fst (generate ts options con) = Inr (printFile ts out)"
    using assms by (simp add: generate_result)
  from located_text [OF assms] obtain members where
    "sf_text out = sourceFileText (inputFileTargetClass options) members"
    by blast
  then show "\<exists>interfaceBody methods.
      sf_text out =
        js ''import { Observable } from '' @ quote @ js ''rxjs'' @ quote @ js '';'' @ nl
        @ js ''import { CommandQueue } from '' @ quote @ js ''@obsidize/command-queue''
        @ quote @ js '';'' @ nl
        @ nl
        @ interfaceDeclaration (inputFileTargetClass options @ js ''Like'') interfaceBody
        @ nl @ nl
        @ classDeclaration (inputFileTargetClass options @ js ''Guard'')
            (inputFileTargetClass options @ js ''Like'')
            (tab @ nl
             @ tab @ js ''public readonly queue: CommandQueue = new CommandQueue();'' @ nl
             @ methods)
        @ nl"
    unfolding output_text importLines_def queueField_def by (intro exI) simp
qed

theorem fixed_imports_and_queue_witness:
  "fst (generateAst sampleTs (sampleOptions ''Plain'' Absent Absent) [])
     = Inr (sourceFile sampleTs [] (sourceFileText (js ''Plain'') plainMembers))
   \<and> map (\<lambda>m. strategy (m_returnType m)) (parseMethodDeclarationMetadataList plainMembers)
       = [Direct]
   \<and> (\<exists>interfaceBody methods.
      sourceFileText (js ''Plain'') plainMembers =
        js ''import { Observable } from '' @ quote @ js ''rxjs'' @ quote @ js '';'' @ nl
        @ js ''import { CommandQueue } from '' @ quote @ js ''@obsidize/command-queue''
        @ quote @ js '';'' @ nl
        @ nl
        @ interfaceDeclaration (js ''Plain'' @ js ''Like'') interfaceBody
        @ nl @ nl
        @ classDeclaration (js ''Plain'' @ js ''Guard'') (js ''Plain'' @ js ''Like'')
            (tab @ nl
             @ tab @ js ''public readonly queue: CommandQueue = new CommandQueue();'' @ nl
             @ methods)
        @ nl)"
proof (intro conjI)
  show "fst (generateAst sampleTs (sampleOptions ''Plain'' Absent Absent) [])
     = Inr (sourceFile sampleTs [] (sourceFileText (js ''Plain'') plainMembers))"
    by (rule sample_output)
  show "map (\<lambda>m. strategy (m_returnType m)) (parseMethodDeclarationMetadataList plainMembers)
       = [Direct]"
    by (simp add: parse_methods methodsOf_def plainMembers_def metadata_simps strategy_table)
  from conjunct2 [OF fixed_imports_and_queue [OF sample_output(2)]]
  show "\<exists>interfaceBody methods.
      sourceFileText (js ''Plain'') plainMembers =
        js ''import { Observable } from '' @ quote @ js ''rxjs'' @ quote @ js '';'' @ nl
        @ js ''import { CommandQueue } from '' @ quote @ js ''@obsidize/command-queue''
        @ quote @ js '';'' @ nl
        @ nl
        @ interfaceDeclaration (js ''Plain'' @ js ''Like'') interfaceBody
        @ nl @ nl
        @ classDeclaration (js ''Plain'' @ js ''Guard'') (js ''Plain'' @ js ''Like'')
            (tab @ nl
             @ tab @ js ''public readonly queue: CommandQueue = new CommandQueue();'' @ nl
             @ methods)
        @ nl"
    by (simp add: sampleOptions_def sourceFile_def)
qed

section \<open>The file names\<close>




end
